theory Spec2Isabelle
  imports Main
begin

section \<open>Python text\<close>

text \<open>
  A Python \<open>str\<close> is a sequence of code points. The model writes it as a \<open>string\<close>
  whose characters stand for the code points below 256, one character per code point.
\<close>

definition isspace :: "char \<Rightarrow> bool" where
  \<comment> \<open>\<open>str.isspace\<close> on one code point below 256: TAB, LF, VT, FF, CR, the separators
      0x1C to 0x1F, the space, NEL (0x85) and the no-break space (0xA0).\<close>
  "isspace c \<longleftrightarrow>
     c \<in> set [CHR 0x09, CHR 0x0A, CHR 0x0B, CHR 0x0C, CHR 0x0D,
               CHR 0x1C, CHR 0x1D, CHR 0x1E, CHR 0x1F, CHR 0x20, CHR 0x85, CHR 0xA0]"

definition strip :: "string \<Rightarrow> string" where
  \<comment> \<open>\<open>str.strip()\<close>: leading and trailing whitespace removed.\<close>
  "strip s = rev (dropWhile isspace (rev (dropWhile isspace s)))"

definition lower_char :: "char \<Rightarrow> char" where
  \<comment> \<open>\<open>str.lower()\<close> on one code point below 256: A to Z, and the Latin-1 capitals
      0xC0 to 0xDE without the multiplication sign 0xD7, move up by 32.\<close>
  "lower_char c =
     (let n = (of_char c :: nat)
      in if (65 \<le> n \<and> n \<le> 90) \<or> (192 \<le> n \<and> n \<le> 222 \<and> n \<noteq> 215)
         then char_of (n + 32) else c)"

definition lower :: "string \<Rightarrow> string" where
  "lower s = map lower_char s"

fun startswith :: "string \<Rightarrow> string \<Rightarrow> bool" where
  "startswith s [] = True"
| "startswith [] (p # ps) = False"
| "startswith (c # cs) (p # ps) = (c = p \<and> startswith cs ps)"

definition endswith :: "string \<Rightarrow> string \<Rightarrow> bool" where
  "endswith s suf = startswith (rev s) (rev suf)"

fun contains :: "string \<Rightarrow> string \<Rightarrow> bool" where
  \<comment> \<open>\<open>sub in s\<close>\<close>
  "contains sub [] = (sub = [])"
| "contains sub (c # cs) = (startswith (c # cs) sub \<or> contains sub cs)"

fun str_nat :: "nat \<Rightarrow> string" where
  "str_nat n =
     (if n < 10 then [''0123456789'' ! n]
      else str_nat (n div 10) @ [''0123456789'' ! (n mod 10)])"

declare str_nat.simps [simp del]

definition str_int :: "int \<Rightarrow> string" where
  \<comment> \<open>\<open>str(i)\<close> of a Python integer: decimal digits, a minus sign when negative.\<close>
  "str_int i = (if i < 0 then CHR ''-'' # str_nat (nat (- i)) else str_nat (nat i))"

definition float_repr :: "bool \<Rightarrow> string \<Rightarrow> int \<Rightarrow> string" where
  \<comment> \<open>\<open>str(x)\<close> of a finite float with the digits \<open>ds\<close> and the decimal point after
      \<open>decpt\<close> of them: positional between \<open>1e-4\<close> and \<open>1e16\<close>, with \<open>.0\<close> after a whole
      number, and with an exponent of at least two digits otherwise.\<close>
  "float_repr neg ds decpt =
     (if neg then ''-'' else []) @
     (if - 4 < decpt \<and> decpt \<le> 16
      then (if decpt \<le> 0 then ''0.'' @ replicate (nat (- decpt)) (CHR ''0'') @ ds
            else if length ds \<le> nat decpt
            then ds @ replicate (nat decpt - length ds) (CHR ''0'') @ ''.0''
            else take (nat decpt) ds @ ''.'' @ drop (nat decpt) ds)
      else take 1 ds @ (if 1 < length ds then ''.'' @ drop 1 ds else []) @ ''e'' @
           (if decpt - 1 < 0 then ''-'' else ''+'') @
           (let e = str_nat (nat \<bar>decpt - 1\<bar>) in if length e < 2 then CHR ''0'' # e else e))"

section \<open>Tables\<close>

text \<open>
  A pandas DataFrame as the program uses it: the column labels in order and the rows in
  order, every row holding one cell per column. A cell is a text, a whole number of an
  integer column (\<open>int64\<close>), a Python integer held in a column of objects, a float, or
  the missing value (NaN). Truth values and dates are not part of the model.

  A finite float is given by the digits Python's \<open>repr\<close> prints for it: its sign, the
  shortest digits that read back as the same float, and the number \<open>p\<close> of these digits
  that stand before the decimal point (the value is the digits read as a fraction of 1,
  times the \<open>p\<close>-th power of 10); so 42.0 is \<open>Repr False ''42'' 2\<close> and 0.5 is
  \<open>Repr False ''5'' 0\<close>. \<open>Nearest i\<close> is the float nearest to the whole number \<open>i\<close>:
  what pandas makes of a cell of an integer column when the column has to hold a missing
  value. The tables the readers deliver hold floats of the first kind.
\<close>

datatype float64 = Repr bool string int | Infinite bool | Nearest int

datatype cell = Text string | Num int | PyInt int | Float float64 | Missing

record table =
  columns :: "string list"
  rows :: "cell list list"

definition is_Num :: "cell \<Rightarrow> bool" where
  "is_Num c = (case c of Num i \<Rightarrow> True | _ \<Rightarrow> False)"

definition is_PyInt :: "cell \<Rightarrow> bool" where
  "is_PyInt c = (case c of PyInt i \<Rightarrow> True | _ \<Rightarrow> False)"

definition is_Text :: "cell \<Rightarrow> bool" where
  "is_Text c = (case c of Text s \<Rightarrow> True | _ \<Rightarrow> False)"

definition shortest_digits :: "string \<Rightarrow> bool" where
  \<comment> \<open>the digits of a \<open>repr\<close>: \<open>0\<close> alone, or digits that neither start nor end with 0\<close>
  "shortest_digits ds \<longleftrightarrow>
     ds \<noteq> [] \<and> list_all (\<lambda>c. c \<in> set ''0123456789'') ds \<and>
     (ds = ''0'' \<or> (hd ds \<noteq> CHR ''0'' \<and> last ds \<noteq> CHR ''0''))"

definition delivered :: "cell \<Rightarrow> bool" where
  \<comment> \<open>a float of a file is one \<open>repr\<close> prints\<close>
  "delivered c =
     (case c of Float (Repr neg ds p) \<Rightarrow> shortest_digits ds
              | Float (Nearest i) \<Rightarrow> False
              | _ \<Rightarrow> True)"

definition typed_column :: "cell list \<Rightarrow> bool" where
  \<comment> \<open>the cells of one column: an integer column holds whole numbers only (a number
      beside a blank or beside a float is a float, a number beside a text is a Python
      integer), and Python integers are found in a column of objects only, beside a
      text\<close>
  "typed_column cs \<longleftrightarrow>
     (list_ex is_Num cs \<longrightarrow> list_all is_Num cs) \<and>
     (list_ex is_PyInt cs \<longrightarrow> list_ex is_Text cs) \<and>
     list_all delivered cs"

definition well_formed :: "table \<Rightarrow> bool" where
  \<comment> \<open>what the readers deliver: unique labels, rectangular rows, typed columns\<close>
  "well_formed t \<longleftrightarrow>
     distinct (columns t) \<and> list_all (\<lambda>r. length r = length (columns t)) (rows t) \<and>
     list_all (\<lambda>j. typed_column (map (\<lambda>r. r ! j) (rows t))) [0..<length (columns t)]"

section \<open>Loading a file\<close>

text \<open>
  The uploaded file is a named byte buffer with a read position. The four parsers that
  \<open>load_data_file\<close> calls belong to pandas and are parameters of the model: a parser is
  given the engine, the file (with its read position) and the \<open>header\<close> argument, and
  either returns a table or raises an exception whose text \<open>str(e)\<close> it reports; it also
  leaves the read position somewhere.
\<close>

datatype engine = PythonCsv | Pyxlsb | Openpyxl | Xlrd

record uploaded_file =
  name :: string
  payload :: string
  pos :: nat

type_synonym reader = "engine \<Rightarrow> uploaded_file \<Rightarrow> int \<Rightarrow> (string + table) \<times> nat"

datatype message = StError string | StInfo string

definition call_reader ::
  "reader \<Rightarrow> engine \<Rightarrow> uploaded_file \<Rightarrow> int \<Rightarrow> (string + table) \<times> uploaded_file" where
  "call_reader rd eng f skiprows =
     (case rd eng f skiprows of (r, p) \<Rightarrow> (r, f\<lparr>pos := p\<rparr>))"

definition read_excel_with_fallback ::
  "reader \<Rightarrow> string \<Rightarrow> uploaded_file \<Rightarrow> int \<Rightarrow> (string + table) \<times> uploaded_file" where
  \<comment> \<open>lines 31 to 38: the inner \<open>try\<close>\<close>
  "read_excel_with_fallback rd file_name_lower f skiprows =
     (case call_reader rd Openpyxl f skiprows of
        (Inr t, f1) \<Rightarrow> (Inr t, f1)
      | (Inl e, f1) \<Rightarrow>
          if contains ''zip file'' (lower e) \<or> endswith file_name_lower ''.xls''
          then call_reader rd Xlrd (f1\<lparr>pos := 0\<rparr>) skiprows
          else (Inl e, f1))"

definition load_body ::
  "reader \<Rightarrow> uploaded_file \<Rightarrow> int \<Rightarrow> (string + table option) \<times> uploaded_file" where
  \<comment> \<open>lines 20 to 38: the body of the outer \<open>try\<close>. \<open>Inl e\<close> is an exception leaving
      the body; \<open>Inr None\<close> is the end of the \<open>if\<close> chain reached with no branch taken.\<close>
  "load_body rd f header_row =
     (let skiprows = header_row - 1;
          file_name_lower = lower (name f)
      in if endswith file_name_lower ''.csv'' \<or> endswith file_name_lower ''.tsv''
            \<or> endswith file_name_lower ''.txt''
         then (case call_reader rd PythonCsv f skiprows of
                 (r, f1) \<Rightarrow> (map_sum id Some r, f1))
         else if endswith file_name_lower ''.xlsb''
         then (case call_reader rd Pyxlsb f skiprows of
                 (r, f1) \<Rightarrow> (map_sum id Some r, f1))
         else if endswith file_name_lower ''.xlsx'' \<or> endswith file_name_lower ''.xlsm''
            \<or> endswith file_name_lower ''.xls''
         then (case read_excel_with_fallback rd file_name_lower f skiprows of
                 (r, f1) \<Rightarrow> (map_sum id Some r, f1))
         else (Inr None, f))"

definition failed_to_read :: "string \<Rightarrow> string \<Rightarrow> string" where
  "failed_to_read file_name e = ''Failed to read file '' @ [CHR 0x27] @ file_name @ [CHR 0x27] @ ''. Error: '' @ e"

definition header_hint :: string where
  "header_hint = ''Please ensure the 'Header is on which row?' value is correct. The selected row must contain the column names.''"

definition load_data_file ::
  "reader \<Rightarrow> uploaded_file \<Rightarrow> int \<Rightarrow> table option \<times> message list \<times> uploaded_file" where
  \<comment> \<open>the whole function: the value returned, the messages shown, the file afterwards\<close>
  "load_data_file rd f header_row =
     (case load_body rd f header_row of
        (Inr t, f1) \<Rightarrow> (t, [], f1)
      | (Inl e, f1) \<Rightarrow> (None, [StError (failed_to_read (name f) e), StInfo header_hint], f1))"

section \<open>The frame operations of the conversion\<close>

text \<open>
  The pandas calls of the button handler, modelled as the library documents them (pandas 2
  without copy-on-write), on tables as the readers deliver them. Every exception the calls
  raise on a label is a value of \<open>failure\<close>.
\<close>

datatype failure = KeyError | AttributeError | MergeError

fun index_of :: "'a list \<Rightarrow> 'a \<Rightarrow> nat" where
  "index_of [] c = 0"
| "index_of (x # xs) c = (if x = c then 0 else Suc (index_of xs c))"

definition str_float :: "float64 \<Rightarrow> string" where
  \<comment> \<open>\<open>str(x)\<close> of a float. The float nearest to a whole number of at most 2 to the
      53 in size is that number, and prints as it followed by \<open>.0\<close>. The float nearest
      to a larger whole number is never printed by the program: such cells arise in the
      value column of a merge only, and the program prints key cells only.\<close>
  "str_float x =
     (case x of Repr neg ds decpt \<Rightarrow> float_repr neg ds decpt
              | Infinite neg \<Rightarrow> (if neg then ''-inf'' else ''inf'')
              | Nearest i \<Rightarrow> str_int i @ ''.0'')"

definition astype_str :: "cell \<Rightarrow> string" where
  \<comment> \<open>\<open>astype(str)\<close> on one cell: \<open>str\<close> of the value; the missing value becomes the
      text \<open>nan\<close>\<close>
  "astype_str c =
     (case c of Text s \<Rightarrow> s | Num i \<Rightarrow> str_int i | PyInt i \<Rightarrow> str_int i
              | Float x \<Rightarrow> str_float x | Missing \<Rightarrow> ''nan'')"

definition normalize_key :: "cell \<Rightarrow> cell" where
  \<comment> \<open>\<open>.astype(str).str.strip()\<close> on one cell\<close>
  "normalize_key c = Text (strip (astype_str c))"

definition select_columns :: "table \<Rightarrow> string list \<Rightarrow> failure + table" where
  \<comment> \<open>\<open>df[[a, b]]\<close>: a new frame with the listed columns, in the listed order\<close>
  "select_columns t cs =
     (if \<not> set cs \<subseteq> set (columns t) then Inl KeyError
      else Inr \<lparr>columns = cs,
                rows = map (\<lambda>r. map (\<lambda>c. r ! index_of (columns t) c) cs) (rows t)\<rparr>)"

definition strip_column :: "table \<Rightarrow> string \<Rightarrow> failure + table" where
  \<comment> \<open>\<open>df[c] = df[c].astype(str).str.strip()\<close>. With the label twice in the frame,
      \<open>df[c]\<close> is a frame and has no \<open>.str\<close>.\<close>
  "strip_column t c =
     (if c \<notin> set (columns t) then Inl KeyError
      else if count_list (columns t) c \<noteq> 1 then Inl AttributeError
      else Inr (t\<lparr>rows := map (\<lambda>r. r[index_of (columns t) c :=
                                        normalize_key (r ! index_of (columns t) c)]) (rows t)\<rparr>))"

fun keep_first :: "('a \<Rightarrow> 'k) \<Rightarrow> 'k list \<Rightarrow> 'a list \<Rightarrow> 'a list" where
  \<comment> \<open>the rows whose key has not been seen before, in order\<close>
  "keep_first key seen [] = []"
| "keep_first key seen (r # rs) =
     (if key r \<in> set seen then keep_first key seen rs
      else r # keep_first key (key r # seen) rs)"

definition drop_duplicates :: "table \<Rightarrow> string \<Rightarrow> failure + table" where
  \<comment> \<open>\<open>df.drop_duplicates(subset=[c], inplace=True)\<close>, with the default \<open>keep='first'\<close>\<close>
  "drop_duplicates t c =
     (if c \<notin> set (columns t) then Inl KeyError
      else Inr (t\<lparr>rows := keep_first (\<lambda>r. r ! index_of (columns t) c) [] (rows t)\<rparr>))"

definition drop_label :: "string \<Rightarrow> table \<Rightarrow> table" where
  \<comment> \<open>every column carrying the label is removed\<close>
  "drop_label c t =
     \<lparr>columns = filter (\<lambda>l. l \<noteq> c) (columns t),
      rows = map (\<lambda>r. map snd (filter (\<lambda>(l, x). l \<noteq> c) (zip (columns t) r))) (rows t)\<rparr>"

definition add_suffix :: "string set \<Rightarrow> string \<Rightarrow> string list \<Rightarrow> string list" where
  "add_suffix overlap suffix ls = map (\<lambda>l. if l \<in> overlap then l @ suffix else l) ls"

definition matching_rows :: "cell \<Rightarrow> cell list \<Rightarrow> cell list list \<Rightarrow> cell list list" where
  \<comment> \<open>the right rows whose key equals \<open>k\<close>, in the right frame's order\<close>
  "matching_rows k rkeys rrows = map snd (filter (\<lambda>(k', r). k' = k) (zip rkeys rrows))"

definition joined_rows :: "nat \<Rightarrow> cell list list \<Rightarrow> cell list \<Rightarrow> cell list list" where
  \<comment> \<open>a left row of a left join: once per matching right row, or once with the right
      cells missing\<close>
  "joined_rows width ms l =
     (if ms = [] then [l @ replicate width Missing] else map (\<lambda>r. l @ r) ms)"

definition upcast :: "cell \<Rightarrow> cell" where
  \<comment> \<open>a column of whole numbers that has to hold a missing value becomes a column of
      floats: every number becomes the float nearest to it\<close>
  "upcast c = (case c of Num i \<Rightarrow> Float (Nearest i) | _ \<Rightarrow> c)"

definition merge_left :: "table \<Rightarrow> table \<Rightarrow> string \<Rightarrow> string \<Rightarrow> failure + table" where
  \<comment> \<open>\<open>pd.merge(left, right, left_on=lo, right_on=ro, how='left')\<close> on key columns of
      texts: every left row, in order, joined with the right rows of equal key. With
      \<open>lo = ro\<close> the right key column is left out; labels on both sides get the suffixes
      \<open>_x\<close> and \<open>_y\<close>, and suffixing must not produce a label twice. When a left row has
      no match, the right columns have to hold a missing value, and their whole numbers
      become floats.\<close>
  "merge_left left right lo ro =
     (if lo \<notin> set (columns left) \<or> ro \<notin> set (columns right) then Inl KeyError
      else
        let rkeys = map (\<lambda>r. r ! index_of (columns right) ro) (rows right);
            right' = (if lo = ro then drop_label ro right else right);
            overlap = set (columns left) \<inter> set (columns right');
            llabels = add_suffix overlap ''_x'' (columns left);
            rlabels = add_suffix overlap ''_y'' (columns right');
            unmatched = list_ex (\<lambda>l. matching_rows (l ! index_of (columns left) lo) rkeys
                                       (rows right') = []) (rows left);
            rrows = (if unmatched then map (map upcast) (rows right') else rows right')
        in if \<not> distinct llabels \<or> \<not> distinct rlabels then Inl MergeError
           else Inr \<lparr>columns = llabels @ rlabels,
                     rows = concat (map (\<lambda>l.
                       joined_rows (length (columns right'))
                         (matching_rows (l ! index_of (columns left) lo) rkeys rrows) l)
                       (rows left))\<rparr>)"

definition rename_column :: "string \<Rightarrow> string \<Rightarrow> table \<Rightarrow> table" where
  \<comment> \<open>\<open>df.rename(columns={old: new}, inplace=True)\<close>; an absent label is no error\<close>
  "rename_column old new t = t\<lparr>columns := map (\<lambda>l. if l = old then new else l) (columns t)\<rparr>"

definition drop_column :: "string \<Rightarrow> table \<Rightarrow> failure + table" where
  \<comment> \<open>\<open>df.drop(columns=[c], inplace=True)\<close>\<close>
  "drop_column c t = (if c \<notin> set (columns t) then Inl KeyError else Inr (drop_label c t))"

definition fillna_cell :: "cell \<Rightarrow> cell \<Rightarrow> cell" where
  "fillna_cell v c = (case c of Missing \<Rightarrow> v | _ \<Rightarrow> c)"

definition fillna_column :: "string \<Rightarrow> cell \<Rightarrow> table \<Rightarrow> failure + table" where
  \<comment> \<open>\<open>df[c].fillna(v, inplace=True)\<close>. With the label twice in the frame, \<open>df[c]\<close> is a
      new frame holding the columns of that label: it is filled, and \<open>df\<close> stays as it
      is.\<close>
  "fillna_column c v t =
     (if c \<notin> set (columns t) then Inl KeyError
      else if count_list (columns t) c \<noteq> 1 then Inr t
      else Inr (t\<lparr>rows := map (\<lambda>r. r[index_of (columns t) c :=
                                        fillna_cell v (r ! index_of (columns t) c)]) (rows t)\<rparr>))"

section \<open>The conversion\<close>

text \<open>
  The frames live in a store and are named by their addresses; \<open>.copy()\<close>, the column
  selection and the merge make a new frame, the \<open>inplace\<close> calls and the column
  assignments change the frame they are called on. The handler returns the address of
  \<open>result_df\<close>, or the exception raised, and the store as it is then.
\<close>

type_synonym store = "table list"

definition new_frame :: "store \<Rightarrow> table \<Rightarrow> nat \<times> store" where
  "new_frame h t = (length h, h @ [t])"

definition new_col_name :: string where
  "new_col_name = ''Converted Part Number''"

definition not_found :: cell where
  "not_found = Text ''--- NOT FOUND ---''"

definition attempt ::
  "failure + 'a \<Rightarrow> store \<Rightarrow> ('a \<Rightarrow> (failure + 'b) \<times> store) \<Rightarrow> (failure + 'b) \<times> store" where
  \<comment> \<open>a call that may raise: the exception ends the handler with the store as it is,
      a result goes on to the rest of the handler\<close>
  "attempt r h rest = (case r of Inl e \<Rightarrow> (Inl e, h) | Inr x \<Rightarrow> rest x)"

definition convert_part_numbers ::
  "store \<Rightarrow> nat \<Rightarrow> nat \<Rightarrow> string \<Rightarrow> string \<Rightarrow> string \<Rightarrow> (failure + nat) \<times> store" where
  \<comment> \<open>lines 134 to 148\<close>
  "convert_part_numbers h0 user_df master_df user_e_col master_e_col new_part_col =
     (let (user_df_copy, h1) = new_frame h0 (h0 ! user_df);
          (master_df_copy, h2) = new_frame h1 (h1 ! master_df)
      in
      attempt (select_columns (h2 ! master_df_copy) [master_e_col, new_part_col]) h2 (\<lambda>m.
      let (mapping_df, h3) = new_frame h2 m in
      attempt (strip_column (h3 ! mapping_df) master_e_col) h3 (\<lambda>m1.
      let h4 = h3[mapping_df := m1] in
      attempt (strip_column (h4 ! user_df_copy) user_e_col) h4 (\<lambda>u1.
      let h5 = h4[user_df_copy := u1] in
      attempt (drop_duplicates (h5 ! mapping_df) master_e_col) h5 (\<lambda>m2.
      let h6 = h5[mapping_df := m2] in
      attempt (merge_left (h6 ! user_df_copy) (h6 ! mapping_df) user_e_col master_e_col) h6 (\<lambda>r.
      let (result_df, h7) = new_frame h6 r;
          h8 = h7[result_df := rename_column new_part_col new_col_name (h7 ! result_df)]
      in
      attempt (if user_e_col \<noteq> master_e_col then drop_column master_e_col (h8 ! result_df)
               else Inr (h8 ! result_df)) h8 (\<lambda>r1.
      let h9 = h8[result_df := r1] in
      attempt (fillna_column new_col_name not_found (h9 ! result_df)) h9 (\<lambda>r2.
      (Inr result_df, h9[result_df := r2])))))))))"

definition convert ::
  "table \<Rightarrow> string \<Rightarrow> table \<Rightarrow> string \<Rightarrow> string \<Rightarrow> failure + table" where
  \<comment> \<open>the handler run on a store holding the two loaded tables: the table it produces\<close>
  "convert dataTable dataKeyColumn masterTable masterKeyColumn masterValueColumn =
     (case convert_part_numbers [dataTable, masterTable] 0 1
             dataKeyColumn masterKeyColumn masterValueColumn of
        (Inl e, h) \<Rightarrow> Inl e
      | (Inr result_df, h) \<Rightarrow> Inr (h ! result_df))"

section \<open>Reading the result\<close>

definition cell_at :: "table \<Rightarrow> nat \<Rightarrow> string \<Rightarrow> cell" where
  \<comment> \<open>the cell of row \<open>n\<close> in the column labelled \<open>c\<close>\<close>
  "cell_at t n c = rows t ! n ! index_of (columns t) c"


definition form_request :: "table \<Rightarrow> string \<Rightarrow> table \<Rightarrow> string \<Rightarrow> string \<Rightarrow> bool" where
  \<comment> \<open>every request the form can make (lines 114 to 128): two tables as the readers
      deliver them, the key and the value column chosen among the labels of the master
      table, the key column of the data chosen among the labels of the data table\<close>
  "form_request d uc m mc vc \<longleftrightarrow>
     well_formed d \<and> well_formed m \<and>
     uc \<in> set (columns d) \<and> mc \<in> set (columns m) \<and> vc \<in> set (columns m)"

definition no_label_clash :: "table \<Rightarrow> string \<Rightarrow> table \<Rightarrow> string \<Rightarrow> string \<Rightarrow> bool" where
  \<comment> \<open>a condition on the labels of a request: the key and the value column of the master
      table are two columns; the data table has no column labelled like the value column
      and none labelled \<open>Converted Part Number\<close>; and a master key column labelled
      otherwise than the data key column is labelled neither like a column of the data
      table nor \<open>Converted Part Number\<close>\<close>
  "no_label_clash d uc m mc vc \<longleftrightarrow>
     mc \<noteq> vc \<and> vc \<notin> set (columns d) \<and> new_col_name \<notin> set (columns d) \<and>
     (mc \<noteq> uc \<longrightarrow> mc \<notin> set (columns d) \<and> mc \<noteq> new_col_name)"

definition data_key :: "table \<Rightarrow> string \<Rightarrow> cell list \<Rightarrow> cell" where
  \<comment> \<open>the normalized key of a data row\<close>
  "data_key d uc r = normalize_key (r ! index_of (columns d) uc)"

definition master_key :: "table \<Rightarrow> string \<Rightarrow> cell list \<Rightarrow> cell" where
  \<comment> \<open>the normalized key of a master row\<close>
  "master_key m mc r = normalize_key (r ! index_of (columns m) mc)"

definition first_match :: "table \<Rightarrow> string \<Rightarrow> cell \<Rightarrow> cell list option" where
  \<comment> \<open>the first master row, in the master table's order, with normalized key \<open>k\<close>\<close>
  "first_match m mc k = find (\<lambda>r. master_key m mc r = k) (rows m)"

definition some_unmatched :: "table \<Rightarrow> string \<Rightarrow> table \<Rightarrow> string \<Rightarrow> bool" where
  \<comment> \<open>some data row has a normalized key that no master row has\<close>
  "some_unmatched d uc m mc = list_ex (\<lambda>r. first_match m mc (data_key d uc r) = None) (rows d)"

definition merged :: "table \<Rightarrow> string \<Rightarrow> table \<Rightarrow> string \<Rightarrow> cell \<Rightarrow> cell" where
  \<comment> \<open>a cell of the master table as the merge delivers it\<close>
  "merged d uc m mc c = (if some_unmatched d uc m mc then upcast c else c)"

definition output_cell :: "table \<Rightarrow> string \<Rightarrow> table \<Rightarrow> string \<Rightarrow> string \<Rightarrow> cell \<Rightarrow> cell" where
  "output_cell d uc m mc vc k =
     fillna_cell not_found
       (case first_match m mc k of None \<Rightarrow> Missing
        | Some r \<Rightarrow> merged d uc m mc (r ! index_of (columns m) vc))"

definition result_row :: "table \<Rightarrow> string \<Rightarrow> table \<Rightarrow> string \<Rightarrow> string \<Rightarrow> cell list \<Rightarrow> cell list" where
  \<comment> \<open>a data row with its key cell normalized, followed by the output cell\<close>
  "result_row d uc m mc vc r =
     r[index_of (columns d) uc := data_key d uc r] @ [output_cell d uc m mc vc (data_key d uc r)]"

definition bind_failure :: "failure + 'a \<Rightarrow> ('a \<Rightarrow> failure + 'b) \<Rightarrow> failure + 'b" where
  "bind_failure r f = (case r of Inl e \<Rightarrow> Inl e | Inr x \<Rightarrow> f x)"

definition modern :: "string \<Rightarrow> bool" where
  \<comment> \<open>the names of the third branch of \<open>load_data_file\<close>\<close>
  "modern nm \<longleftrightarrow>
     (let l = lower nm in endswith l ''.xlsx'' \<or> endswith l ''.xlsm'' \<or> endswith l ''.xls'')"

definition supported :: "string \<Rightarrow> bool" where
  \<comment> \<open>the names some branch of \<open>load_data_file\<close> takes\<close>
  "supported nm \<longleftrightarrow>
     (let l = lower nm
      in endswith l ''.csv'' \<or> endswith l ''.tsv'' \<or> endswith l ''.txt'' \<or>
         endswith l ''.xlsb'' \<or> modern nm)"

definition error_messages :: "string \<Rightarrow> string \<Rightarrow> message list" where
  \<comment> \<open>what the \<open>except\<close> branch shows for the file name and the text of the exception\<close>
  "error_messages nm e =
     [StError (''Failed to read file '' @ [CHR 0x27] @ nm @ [CHR 0x27] @ ''. Error: '' @ e),
      StInfo header_hint]"

definition digit_value :: "char \<Rightarrow> nat" where
  "digit_value c = of_char c - 48"

definition digits_value :: "string \<Rightarrow> nat" where
  \<comment> \<open>the number a sequence of decimal digits writes\<close>
  "digits_value ds = foldl (\<lambda>a c. 10 * a + digit_value c) 0 ds"

definition numeral_digits :: "string \<Rightarrow> bool" where
  \<comment> \<open>decimal digits with no zero in front, or the digit 0 alone\<close>
  "numeral_digits ds \<longleftrightarrow>
     ds \<noteq> [] \<and> list_all (\<lambda>c. c \<in> set ''0123456789'') ds \<and> (ds = ''0'' \<or> hd ds \<noteq> CHR ''0'')"

definition decimal_of :: "string \<Rightarrow> int option" where
  \<comment> \<open>the whole number a text writes in decimal, when it is the decimal numeral of one:
      digits with no zero in front, after a minus sign for a negative number\<close>
  "decimal_of s =
     (case s of
        [] \<Rightarrow> None
      | c # cs \<Rightarrow>
          if c = CHR ''-''
          then (if numeral_digits cs \<and> cs \<noteq> ''0'' then Some (- int (digits_value cs)) else None)
          else (if numeral_digits s then Some (int (digits_value s)) else None))"

definition shown_cell :: "failure + table \<Rightarrow> nat \<Rightarrow> string \<Rightarrow> cell option" where
  \<comment> \<open>the cell of row \<open>n\<close> under the label \<open>c\<close> of a result, when there is a result\<close>
  "shown_cell r n c = (case r of Inl e \<Rightarrow> None | Inr t \<Rightarrow> Some (cell_at t n c))"


subsection \<open>Example tables\<close>

definition ex_master :: table where
  "ex_master = \<lparr>columns = [''E'', ''New''],
     rows = [[Text ''A1'', Text ''X1''], [Text ''A1'', Text ''X2''], [Text ''B2'', Text ''Y1'']]\<rparr>"

definition ex_data :: table where
  "ex_data = \<lparr>columns = [''Part''], rows = [[Text ''a1 ''], [Text ''C3'']]\<rparr>"

definition ex_data_upper :: table where
  "ex_data_upper = \<lparr>columns = [''Part''], rows = [[Text ''A1 ''], [Text ''C3'']]\<rparr>"


definition ex_numbers :: table where
  "ex_numbers = \<lparr>columns = [''Part'', ''Note''],
     rows = [[Num 42, Text ''bolt''], [Num 7, Text ''nut'']]\<rparr>"

definition ex_floats :: table where
  \<comment> \<open>a column of whole numbers with a blank cell: a column of floats\<close>
  "ex_floats = \<lparr>columns = [''Part''], rows = [[Float (Repr False ''42'' 2)], [Missing]]\<rparr>"


definition ex_master_first_missing :: table where
  \<comment> \<open>two rows for the key \<open>A1\<close>, the first with no value\<close>
  "ex_master_first_missing = \<lparr>columns = [''E'', ''New''],
     rows = [[Text ''A1'', Missing], [Text ''A1'', Text ''X2'']]\<rparr>"

definition ex_master_whole :: table where
  \<comment> \<open>a master table whose values are whole numbers\<close>
  "ex_master_whole = \<lparr>columns = [''E'', ''New''],
     rows = [[Text ''A1'', Num 100], [Text ''A1'', Num 200], [Text ''B2'', Num 300]]\<rparr>"

definition ex_data_new :: table where
  \<comment> \<open>a data table with a column labelled like the value column of \<open>ex_master\<close>\<close>
  "ex_data_new = \<lparr>columns = [''Part'', ''New''],
     rows = [[Text ''A1'', Text ''old''], [Text ''C3'', Text ''older'']]\<rparr>"


definition ex_reader :: reader where
  \<comment> \<open>a parser for which the zip engine fails and the legacy engine succeeds\<close>
  "ex_reader eng f skiprows =
     (if eng = Openpyxl then (Inl ''File is not a zip file'', 4)
      else if eng = Xlrd \<and> pos f = 0 then (Inr ex_master, 9)
      else (Inl ''boom'', 1))"

definition ex_upload :: uploaded_file where
  "ex_upload = \<lparr>name = ''Parts.XLSX'', payload = ''...'', pos = 0\<rparr>"

definition ex_master_padded :: table where
  \<comment> \<open>a master table whose key is a text with blanks around it\<close>
  "ex_master_padded = \<lparr>columns = [''E'', ''New''],
     rows = [[Text '' 42 '', Text ''N42''], [Text ''B2'', Text ''Y1'']]\<rparr>"

definition ex_broken_reader :: reader where
  \<comment> \<open>a parser that raises whatever it is given\<close>
  "ex_broken_reader eng f skiprows = (Inl ''boom'', 1)"

definition ex_csv :: uploaded_file where
  "ex_csv = \<lparr>name = ''data.CSV'', payload = ''...'', pos = 0\<rparr>"



section \<open>The conversion on requests with no clash of labels\<close>

lemma bind_failure_Inr: "bind_failure (Inr x) f = f x"
  by (simp add: bind_failure_def)

lemma bind_failure_assoc:
  "bind_failure (bind_failure a f) g = bind_failure a (\<lambda>x. bind_failure (f x) g)"
  by (simp add: bind_failure_def split: sum.splits)

lemma convert_steps:
  "convert d uc m mc vc =
     bind_failure (select_columns m [mc, vc]) (\<lambda>m0.
     bind_failure (strip_column m0 mc) (\<lambda>m1.
     bind_failure (strip_column d uc) (\<lambda>u1.
     bind_failure (drop_duplicates m1 mc) (\<lambda>m2.
     bind_failure (merge_left u1 m2 uc mc) (\<lambda>r.
     bind_failure (if uc \<noteq> mc then drop_column mc (rename_column vc new_col_name r)
                   else Inr (rename_column vc new_col_name r)) (\<lambda>r1.
     fillna_column new_col_name not_found r1))))))"
  by (simp add: convert_def convert_part_numbers_def new_frame_def attempt_def bind_failure_def Let_def
       split: sum.splits)

lemma keep_first_map:
  "keep_first key seen (map f xs) = map f (keep_first (\<lambda>x. key (f x)) seen xs)"
  by (induction xs arbitrary: seen) auto

lemma filter_keep_first:
  "filter (\<lambda>x. key x = k) (keep_first key seen xs) =
     (if k \<in> set seen then []
      else case find (\<lambda>x. key x = k) xs of None \<Rightarrow> [] | Some x \<Rightarrow> [x])"
proof (induction xs arbitrary: seen)
  case Nil
  then show ?case by simp
next
  case (Cons x xs)
  then show ?case by (auto split: option.splits)
qed

lemma count_list_distinct: "distinct xs \<Longrightarrow> x \<in> set xs \<Longrightarrow> count_list xs x = 1"
  by (induction xs) auto

lemma count_list_absent: "x \<notin> set xs \<Longrightarrow> count_list xs x = 0"
  by (induction xs) auto

lemma index_of_less: "x \<in> set xs \<Longrightarrow> index_of xs x < length xs"
  by (induction xs) auto

lemma index_of_append_absent: "x \<notin> set xs \<Longrightarrow> index_of (xs @ ys) x = length xs + index_of ys x"
  by (induction xs) auto

lemma unlabel_absent:
  "c \<notin> set cs \<Longrightarrow> length r = length cs \<Longrightarrow>
   map snd (filter (\<lambda>(l, x). l \<noteq> c) (zip cs r)) = r"
proof (induction cs arbitrary: r)
  case Nil
  then show ?case by simp
next
  case (Cons a cs)
  then show ?case by (cases r) auto
qed

lemma rename_absent: "c \<notin> set cs \<Longrightarrow> map (\<lambda>l. if l = c then n else l) cs = cs"
  by (induction cs) auto

lemma concat_singletons: "(\<And>x. x \<in> set xs \<Longrightarrow> f x = [g x]) \<Longrightarrow> concat (map f xs) = map g xs"
  by (induction xs) auto

lemma add_suffix_empty: "add_suffix {} suf ls = ls"
  by (simp add: add_suffix_def)

lemma matching_keep_first:
  "matching_rows kk (map key (keep_first key [] xs)) (map g (keep_first key [] xs)) =
     (case find (\<lambda>x. key x = kk) xs of None \<Rightarrow> [] | Some x \<Rightarrow> [g x])"
proof -
  have "zip (map key (keep_first key [] xs)) (map g (keep_first key [] xs)) =
        map (\<lambda>x. (key x, g x)) (keep_first key [] xs)"
    by (simp add: zip_map_map zip_same_conv_map)
  then have "matching_rows kk (map key (keep_first key [] xs)) (map g (keep_first key [] xs)) =
        map g (filter (\<lambda>x. key x = kk) (keep_first key [] xs))"
    by (simp add: matching_rows_def filter_map o_def)
  also have "\<dots> = (case find (\<lambda>x. key x = kk) xs of None \<Rightarrow> [] | Some x \<Rightarrow> [g x])"
    by (simp add: filter_keep_first split: option.splits)
  finally show ?thesis .
qed

lemma drop_label_pair: "a \<noteq> b \<Longrightarrow>
  drop_label a \<lparr>columns = [a, b], rows = map (\<lambda>r. [f r, g r]) xs\<rparr> =
  \<lparr>columns = [b], rows = map (\<lambda>r. [g r]) xs\<rparr>"
  by (simp add: drop_label_def)

lemma upcast_normalize_key: "upcast (normalize_key c) = normalize_key c"
  by (simp add: upcast_def normalize_key_def)

lemma merge_left_disjoint:
  assumes lo: "lo \<in> set (columns left)" and ro: "ro \<in> set (columns right)"
    and R: "(if lo = ro then drop_label ro right else right) = R"
    and ov: "set (columns left) \<inter> set (columns R) = {}"
    and dl: "distinct (columns left)" and dr: "distinct (columns R)"
    and K: "map (\<lambda>r. r ! index_of (columns right) ro) (rows right) = rkeys"
    and RR: "(if list_ex (\<lambda>l. matching_rows (l ! index_of (columns left) lo) rkeys (rows R) = [])
                  (rows left)
              then map (map upcast) (rows R) else rows R) = rrows"
    and rows: "\<And>l. l \<in> set (rows left) \<Longrightarrow>
        joined_rows (length (columns R))
          (matching_rows (l ! index_of (columns left) lo) rkeys rrows) l = [f l]"
  shows "merge_left left right lo ro =
           Inr \<lparr>columns = columns left @ columns R, rows = map f (rows left)\<rparr>"
proof -
  have c: "concat (map (\<lambda>l. joined_rows (length (columns R))
              (matching_rows (l ! index_of (columns left) lo) rkeys rrows) l) (rows left)) =
           map f (rows left)"
    by (rule concat_singletons) (rule rows)
  have "merge_left left right lo ro =
      (let overlap = set (columns left) \<inter> set (columns R);
           llabels = add_suffix overlap ''_x'' (columns left);
           rlabels = add_suffix overlap ''_y'' (columns R)
       in if \<not> distinct llabels \<or> \<not> distinct rlabels then Inl MergeError
          else Inr \<lparr>columns = llabels @ rlabels,
                    rows = concat (map (\<lambda>l. joined_rows (length (columns R))
                      (matching_rows (l ! index_of (columns left) lo) rkeys rrows) l)
                      (rows left))\<rparr>)"
    using lo ro unfolding merge_left_def Let_def R K RR by simp
  then show ?thesis
    using dl dr by (simp add: Let_def ov add_suffix_empty c)
qed

lemma convert_no_clash:
  assumes f: "form_request d uc m mc vc" and c: "no_label_clash d uc m mc vc"
  shows "convert d uc m mc vc =
     Inr \<lparr>columns = columns d @ [new_col_name], rows = map (result_row d uc m mc vc) (rows d)\<rparr>"
proof -
  let ?iu = "index_of (columns d) uc"
  let ?upd = "\<lambda>r. r[?iu := data_key d uc r]"
  let ?nk = "\<lambda>r. normalize_key (r ! index_of (columns m) mc)"
  let ?val = "\<lambda>r. r ! index_of (columns m) vc"
  let ?mg = "merged d uc m mc"
  let ?K = "keep_first ?nk [] (rows m)"
  let ?look = "\<lambda>k. case first_match m mc k of None \<Rightarrow> Missing | Some x \<Rightarrow> ?mg (?val x)"
  let ?M0 = "\<lparr>columns = [mc, vc], rows = map (\<lambda>r. [r ! index_of (columns m) mc, ?val r]) (rows m)\<rparr>"
  let ?M1 = "\<lparr>columns = [mc, vc], rows = map (\<lambda>r. [?nk r, ?val r]) (rows m)\<rparr>"
  let ?M2 = "\<lparr>columns = [mc, vc], rows = map (\<lambda>r. [?nk r, ?val r]) ?K\<rparr>"
  let ?U = "d\<lparr>rows := map ?upd (rows d)\<rparr>"
  let ?R1 = "\<lparr>columns = columns d @ [new_col_name],
              rows = map (\<lambda>r. ?upd r @ [?look (data_key d uc r)]) (rows d)\<rparr>"
  have len: "\<And>r. r \<in> set (rows d) \<Longrightarrow> length r = length (columns d)"
    using f by (auto simp: form_request_def well_formed_def list_all_iff)
  have iu: "?iu < length (columns d)"
    using f by (simp add: form_request_def index_of_less)
  have dist: "distinct (columns d)"
    using f by (simp add: form_request_def well_formed_def)
  have ne: "mc \<noteq> vc" "vc \<notin> set (columns d)" "new_col_name \<notin> set (columns d)"
    "uc \<in> set (columns d)" "mc \<in> set (columns m)" "vc \<in> set (columns m)"
    using f c by (auto simp: form_request_def no_label_clash_def)
  have s1: "select_columns m [mc, vc] = Inr ?M0"
    using ne by (simp add: select_columns_def)
  have s2: "strip_column ?M0 mc = Inr ?M1"
    using ne by (auto simp add: strip_column_def)
  have s3: "strip_column d uc = Inr ?U"
    using ne dist by (simp add: strip_column_def count_list_distinct data_key_def)
  have s4: "drop_duplicates ?M1 mc = Inr ?M2"
    by (simp add: drop_duplicates_def keep_first_map)
  have key: "\<And>r. r \<in> set (rows d) \<Longrightarrow> ?upd r ! ?iu = data_key d uc r"
    using len iu by simp
  have un: "list_ex (\<lambda>l. matching_rows (l ! ?iu) (map ?nk ?K) (map g ?K) = []) (map ?upd (rows d)) =
            some_unmatched d uc m mc" for g :: "cell list \<Rightarrow> cell list"
    using key
    by (auto simp: list_ex_iff matching_keep_first some_unmatched_def first_match_def master_key_def
        split: option.splits)
  have rkeys: "map (\<lambda>r. r ! index_of (columns ?M2) mc) (rows ?M2) = map ?nk ?K"
    by simp
  have lo: "uc \<in> set (columns ?U)" using ne by simp
  have ro: "mc \<in> set (columns ?M2)" by simp
  have dl: "distinct (columns ?U)" using dist by simp
  have m5: "bind_failure (merge_left ?U ?M2 uc mc) (\<lambda>r.
       (if uc \<noteq> mc then drop_column mc (rename_column vc new_col_name r)
        else Inr (rename_column vc new_col_name r))) = Inr ?R1"
  proof (cases "uc = mc")
    case True
    let ?R = "\<lparr>columns = [vc], rows = map (\<lambda>r. [?val r]) ?K\<rparr>"
    let ?f = "\<lambda>l. l @ [?look (l ! ?iu)]"
    have R: "(if uc = mc then drop_label mc ?M2 else ?M2) = ?R"
      using True ne by (simp add: drop_label_pair)
    have ov: "set (columns ?U) \<inter> set (columns ?R) = {}" using ne by simp
    have dr: "distinct (columns ?R)" by simp
    have RR: "(if list_ex (\<lambda>l. matching_rows (l ! index_of (columns ?U) uc) (map ?nk ?K) (rows ?R) = [])
                  (rows ?U)
              then map (map upcast) (rows ?R) else rows ?R) = map (\<lambda>r. [?mg (?val r)]) ?K"
      using un [of "\<lambda>r. [?val r]"] by (simp add: merged_def o_def)
    have rws: "joined_rows (length (columns ?R))
          (matching_rows (l ! index_of (columns ?U) uc) (map ?nk ?K) (map (\<lambda>r. [?mg (?val r)]) ?K)) l =
          [?f l]" for l
      by (simp add: matching_keep_first joined_rows_def first_match_def master_key_def
          split: option.splits)
    have "merge_left ?U ?M2 uc mc = Inr \<lparr>columns = columns ?U @ columns ?R, rows = map ?f (rows ?U)\<rparr>"
      by (rule merge_left_disjoint [OF lo ro R ov dl dr rkeys RR rws])
    moreover have "map ?f (map ?upd (rows d)) = map (\<lambda>r. ?upd r @ [?look (data_key d uc r)]) (rows d)"
      using key by simp
    ultimately show ?thesis
      using True ne by (simp add: bind_failure_def rename_column_def rename_absent)
  next
    case False
    let ?pair = "\<lambda>k. case first_match m mc k of None \<Rightarrow> [Missing, Missing]
                    | Some x \<Rightarrow> [?nk x, ?mg (?val x)]"
    let ?f = "\<lambda>l. l @ ?pair (l ! ?iu)"
    have mc: "mc \<notin> set (columns d)" "mc \<noteq> new_col_name"
      using c False by (auto simp: no_label_clash_def)
    have R: "(if uc = mc then drop_label mc ?M2 else ?M2) = ?M2"
      using False by simp
    have ov: "set (columns ?U) \<inter> set (columns ?M2) = {}" using ne mc by simp
    have dr: "distinct (columns ?M2)" using ne by simp
    have up: "map (map upcast) (map (\<lambda>r. [?nk r, ?val r]) ?K) = map (\<lambda>r. [?nk r, upcast (?val r)]) ?K"
      by (simp add: upcast_normalize_key)
    have RR: "(if list_ex (\<lambda>l. matching_rows (l ! index_of (columns ?U) uc) (map ?nk ?K) (rows ?M2) = [])
                  (rows ?U)
              then map (map upcast) (rows ?M2) else rows ?M2) = map (\<lambda>r. [?nk r, ?mg (?val r)]) ?K"
      using un [of "\<lambda>r. [?nk r, ?val r]"] up by (simp add: merged_def)
    have rws: "joined_rows (length (columns ?M2))
          (matching_rows (l ! index_of (columns ?U) uc) (map ?nk ?K)
             (map (\<lambda>r. [?nk r, ?mg (?val r)]) ?K)) l = [?f l]" for l
      by (simp add: matching_keep_first joined_rows_def first_match_def master_key_def
          split: option.splits)
    have "merge_left ?U ?M2 uc mc = Inr \<lparr>columns = columns ?U @ columns ?M2, rows = map ?f (rows ?U)\<rparr>"
      by (rule merge_left_disjoint [OF lo ro R ov dl dr rkeys RR rws])
    moreover have "map ?f (map ?upd (rows d)) = map (\<lambda>r. ?upd r @ ?pair (data_key d uc r)) (rows d)"
      using key by simp
    ultimately have m5: "merge_left ?U ?M2 uc mc =
        Inr \<lparr>columns = columns d @ [mc, vc], rows = map (\<lambda>r. ?upd r @ ?pair (data_key d uc r)) (rows d)\<rparr>"
      by simp
    have m6: "rename_column vc new_col_name
          \<lparr>columns = columns d @ [mc, vc], rows = map (\<lambda>r. ?upd r @ ?pair (data_key d uc r)) (rows d)\<rparr> =
        \<lparr>columns = columns d @ [mc, new_col_name],
         rows = map (\<lambda>r. ?upd r @ ?pair (data_key d uc r)) (rows d)\<rparr>"
      using ne by (simp add: rename_column_def rename_absent)
    have row: "\<And>r. r \<in> set (rows d) \<Longrightarrow>
        map snd (filter (\<lambda>(l, x). l \<noteq> mc)
          (zip (columns d @ [mc, new_col_name]) (?upd r @ ?pair (data_key d uc r)))) =
        ?upd r @ [?look (data_key d uc r)]"
      using mc len by (simp add: unlabel_absent split: option.splits)
    have m7: "drop_column mc \<lparr>columns = columns d @ [mc, new_col_name],
                 rows = map (\<lambda>r. ?upd r @ ?pair (data_key d uc r)) (rows d)\<rparr> = Inr ?R1"
      using mc row by (auto simp add: drop_column_def drop_label_def filter_id_conv)
    show ?thesis
      using False by (simp add: bind_failure_def m5 m6 m7)
  qed
  have row8: "\<And>r. r \<in> set (rows d) \<Longrightarrow>
      (?upd r @ [?look (data_key d uc r)])[length (columns d) :=
          fillna_cell not_found ((?upd r @ [?look (data_key d uc r)]) ! length (columns d))] =
      result_row d uc m mc vc r"
    using len by (simp add: nth_append list_update_append result_row_def output_cell_def)
  have s8: "fillna_column new_col_name not_found ?R1 =
     Inr \<lparr>columns = columns d @ [new_col_name], rows = map (result_row d uc m mc vc) (rows d)\<rparr>"
    using ne row8
    by (simp add: fillna_column_def count_list_absent index_of_append_absent)
  have "convert d uc m mc vc =
      bind_failure (bind_failure (merge_left ?U ?M2 uc mc) (\<lambda>r.
       (if uc \<noteq> mc then drop_column mc (rename_column vc new_col_name r)
        else Inr (rename_column vc new_col_name r))))
       (fillna_column new_col_name not_found)"
    by (simp only: convert_steps s1 s2 s3 s4 bind_failure_Inr bind_failure_assoc)
  then show ?thesis
    by (simp only: m5 bind_failure_Inr s8)
qed

section \<open>The worked example\<close>

text \<open>
  Two facts about the example tables, with the data key written in capitals: the key cell
  of the result is the trimmed text, and the first of the two master rows for \<open>A1\<close> wins.
\<close>

lemma worked_example_upper:
  "convert ex_data_upper ''Part'' ex_master ''E'' ''New'' =
     Inr \<lparr>columns = [''Part'', ''Converted Part Number''],
          rows = [[Text ''A1'', Text ''X1''],
                  [Text ''C3'', Text ''--- NOT FOUND ---'']]\<rparr>"
  by code_simp

text \<open>
  Claim C1, as stated: on the master table \<open>[{E: A1, New: X1}, {E: A1, New: X2},
  {E: B2, New: Y1}]\<close> and the data table \<open>[{Part: "a1 "}, {Part: C3}]\<close> the result has the
  rows \<open>["a1 ", X1]\<close> and \<open>[C3, --- NOT FOUND ---]\<close>. The rows of the result are not these.
\<close>

theorem worked_example_as_stated_fails:
  "map_sum id rows (convert ex_data ''Part'' ex_master ''E'' ''New'') \<noteq>
     Inr [[Text ''a1 '', Text ''X1''], [Text ''C3'', Text ''--- NOT FOUND ---'']]"
  by code_simp

text \<open>
  Claim C1, amended: on these tables the result has exactly two rows, in order: the first
  with the Part cell \<open>a1\<close> (the key cell holds its trimmed text) and the output cell
  \<open>--- NOT FOUND ---\<close> (keys are compared as written, and \<open>a1\<close> is not \<open>A1\<close>), the second
  with the Part cell \<open>C3\<close> and the output cell \<open>--- NOT FOUND ---\<close>.
\<close>

theorem worked_example:
  "convert ex_data ''Part'' ex_master ''E'' ''New'' =
     Inr \<lparr>columns = [''Part'', ''Converted Part Number''],
          rows = [[Text ''a1'', Text ''--- NOT FOUND ---''],
                  [Text ''C3'', Text ''--- NOT FOUND ---'']]\<rparr>"
  by code_simp

section \<open>Loading: the fallback between the spreadsheet engines\<close>

lemma startswith_Cons: "startswith s (p # ps) \<longleftrightarrow> (\<exists>cs. s = p # cs \<and> startswith cs ps)"
  by (cases s) auto

lemma modern_not_other:
  assumes "endswith s ''.xlsx'' \<or> endswith s ''.xlsm'' \<or> endswith s ''.xls''"
  shows "\<not> endswith s ''.csv''" "\<not> endswith s ''.tsv''" "\<not> endswith s ''.txt''"
        "\<not> endswith s ''.xlsb''"
  using assms by (auto simp: endswith_def startswith_Cons)

lemma ex_upload_modern: "modern (name ex_upload)"
  by code_simp

text \<open>
  Claim C9: for a file named \<open>.xlsx\<close>, \<open>.xlsm\<close> or \<open>.xls\<close> the zip engine is tried first, on
  the file as it is. When it returns a table, that table is the result. When it raises,
  the legacy engine is tried, on the file with its read position set to 0, if and only if
  the text of the exception contains \<open>zip file\<close> (in any case) or the name ends in
  \<open>.xls\<close>; whatever the legacy engine does is then the outcome. Any other exception of the
  zip engine goes to the error conversion, and the legacy engine is not called.
\<close>

theorem load_fallback:
  assumes "modern (name f)"
  shows "load_data_file rd f header_row =
    (case rd Openpyxl f (header_row - 1) of
       (Inr t, p) \<Rightarrow> (Some t, [], f\<lparr>pos := p\<rparr>)
     | (Inl e, p) \<Rightarrow>
         if contains ''zip file'' (lower e) \<or> endswith (lower (name f)) ''.xls''
         then (case rd Xlrd (f\<lparr>pos := 0\<rparr>) (header_row - 1) of
                 (Inr t, p') \<Rightarrow> (Some t, [], f\<lparr>pos := p'\<rparr>)
               | (Inl e', p') \<Rightarrow> (None, error_messages (name f) e', f\<lparr>pos := p'\<rparr>))
         else (None, error_messages (name f) e, f\<lparr>pos := p\<rparr>))"
proof -
  let ?l = "lower (name f)"
  have m: "endswith ?l ''.xlsx'' \<or> endswith ?l ''.xlsm'' \<or> endswith ?l ''.xls''"
    using assms by (simp add: modern_def Let_def)
  note n = modern_not_other [OF m]
  show ?thesis
    using m n
    by (simp add: load_data_file_def load_body_def read_excel_with_fallback_def call_reader_def
        error_messages_def failed_to_read_def Let_def
        split: prod.splits sum.splits)
qed

theorem load_fallback_witness:
  "modern (name ex_upload) \<and>
   load_data_file ex_reader ex_upload 8 = (Some ex_master, [], ex_upload\<lparr>pos := 9\<rparr>)"
proof -
  have m: "modern (name ex_upload)" by (rule ex_upload_modern)
  have z: "contains ''zip file'' (lower ''File is not a zip file'')"
    by code_simp
  show ?thesis
    using m load_fallback [OF m, of ex_reader 8] z
    by (simp add: ex_reader_def)
qed

section \<open>The lookup\<close>

lemma find_first_index:
  "i < length xs \<Longrightarrow> P (xs ! i) \<Longrightarrow> \<forall>l<i. \<not> P (xs ! l) \<Longrightarrow> find P xs = Some (xs ! i)"
proof (induction xs arbitrary: i)
  case Nil
  then show ?case by simp
next
  case (Cons x xs)
  show ?case
  proof (cases i)
    case 0
    with Cons.prems show ?thesis by simp
  next
    case (Suc k)
    have "\<not> P x" using Cons.prems(3) Suc by auto
    moreover have "\<forall>l<k. \<not> P (xs ! l)"
    proof (intro allI impI)
      fix l assume "l < k"
      then have "Suc l < i" using Suc by simp
      with Cons.prems(3) have "\<not> P ((x # xs) ! Suc l)" by blast
      then show "\<not> P (xs ! l)" by simp
    qed
    then have "find P xs = Some (xs ! k)"
      using Cons.IH [of k] Cons.prems(1,2) Suc by simp
    ultimately show ?thesis using Suc by simp
  qed
qed


lemma index_of_nth: "x \<in> set xs \<Longrightarrow> xs ! index_of xs x = x"
  by (induction xs) auto

lemma index_of_append_present: "x \<in> set xs \<Longrightarrow> index_of (xs @ ys) x = index_of xs x"
  by (induction xs) auto

lemma row_length:
  "form_request d uc m mc vc \<Longrightarrow> n < length (rows d) \<Longrightarrow> length (rows d ! n) = length (columns d)"
  by (auto simp: form_request_def well_formed_def list_all_iff)

lemma output_at:
  assumes f: "form_request d uc m mc vc" and c: "no_label_clash d uc m mc vc"
    and n: "n < length (rows d)"
  shows "cell_at \<lparr>columns = columns d @ [new_col_name],
                  rows = map (result_row d uc m mc vc) (rows d)\<rparr> n new_col_name =
         output_cell d uc m mc vc (data_key d uc (rows d ! n))"
proof -
  have "new_col_name \<notin> set (columns d)" using c by (simp add: no_label_clash_def)
  then show ?thesis
    using n row_length [OF f n]
    by (simp add: cell_at_def index_of_append_absent result_row_def nth_append)
qed

lemma data_at:
  assumes f: "form_request d uc m mc vc" and n: "n < length (rows d)" and c: "c \<in> set (columns d)"
  shows "cell_at \<lparr>columns = columns d @ [new_col_name],
                  rows = map (result_row d uc m mc vc) (rows d)\<rparr> n c =
         (if c = uc then normalize_key (cell_at d n uc) else cell_at d n c)"
proof -
  have uc: "uc \<in> set (columns d)" using f by (simp add: form_request_def)
  have lt: "index_of (columns d) c < length (rows d ! n)"
    using c row_length [OF f n] by (simp add: index_of_less)
  have ne: "c \<noteq> uc \<Longrightarrow> index_of (columns d) uc \<noteq> index_of (columns d) c"
    using index_of_nth [OF c] index_of_nth [OF uc] by metis
  show ?thesis
    using n c lt ne
    by (auto simp add: cell_at_def index_of_append_present result_row_def nth_append data_key_def)
qed

lemma output_first:
  assumes "i < length (rows m)"
    and "master_key m mc (rows m ! i) = k"
    and "\<forall>l<i. master_key m mc (rows m ! l) \<noteq> k"
  shows "output_cell d uc m mc vc k = fillna_cell not_found (merged d uc m mc (cell_at m i vc))"
proof -
  have "first_match m mc k = Some (rows m ! i)"
    unfolding first_match_def using assms by (intro find_first_index) auto
  then show ?thesis
    by (simp add: output_cell_def cell_at_def)
qed


text \<open>
  Claim C2, as stated: whenever two master rows have the normalized key of a data row and
  carry different values, the output cell of that row is the value of the first of them.
  With the master rows \<open>[A1, (no value)]\<close> and \<open>[A1, X2]\<close> the output cell of the data row
  \<open>A1\<close> is not the value of the first row (it is the text \<open>--- NOT FOUND ---\<close>); and with
  a data table that has a column \<open>New\<close> beside the master table's value column \<open>New\<close>
  the handler raises, and there is no output cell.
\<close>

theorem first_wins_as_stated_fails:
  "shown_cell (convert ex_data_upper ''Part'' ex_master_first_missing ''E'' ''New'') 0
       ''Converted Part Number'' \<noteq>
     Some (cell_at ex_master_first_missing 0 ''New'') \<and>
   shown_cell (convert ex_data_new ''Part'' ex_master ''E'' ''New'') 0
       ''Converted Part Number'' \<noteq>
     Some (cell_at ex_master 0 ''New'')"
  by code_simp

text \<open>
  Claim C2, amended: take a request with no clash of labels (the key and the value column
  of the master table are two columns; the data table has no column labelled like the
  value column and none labelled \<open>Converted Part Number\<close>; a master key column labelled
  otherwise than the data key column is labelled neither like a data column nor
  \<open>Converted Part Number\<close>). Let two rows \<open>i < j\<close> of the master table have the normalized
  key of data row \<open>n\<close>, row \<open>i\<close> being the first row of the master table with that key.
  Then the output cell of row \<open>n\<close> is decided by the value cell of row \<open>i\<close> alone, whatever
  row \<open>j\<close> holds: it is that value; except that a missing value gives the text
  \<open>--- NOT FOUND ---\<close>, and that a whole number of an integer column comes out as the
  float nearest to it when some data row has no match in the master table.
\<close>

theorem first_wins:
  assumes "form_request d uc m mc vc" and "no_label_clash d uc m mc vc"
    and "n < length (rows d)" and "i < j" and "j < length (rows m)"
    and "master_key m mc (rows m ! i) = data_key d uc (rows d ! n)"
    and "master_key m mc (rows m ! j) = data_key d uc (rows d ! n)"
    and "\<forall>l<i. master_key m mc (rows m ! l) \<noteq> data_key d uc (rows d ! n)"
  shows "\<exists>t. convert d uc m mc vc = Inr t \<and>
             cell_at t n new_col_name =
               (case cell_at m i vc of
                  Missing \<Rightarrow> Text ''--- NOT FOUND ---''
                | Num k \<Rightarrow> if some_unmatched d uc m mc then Float (Nearest k) else Num k
                | _ \<Rightarrow> cell_at m i vc)"
proof -
  have i: "i < length (rows m)" using assms(4,5) by simp
  have "output_cell d uc m mc vc (data_key d uc (rows d ! n)) =
        fillna_cell not_found (merged d uc m mc (cell_at m i vc))"
    using i assms(6,8) by (rule output_first)
  also have "\<dots> = (case cell_at m i vc of
                  Missing \<Rightarrow> Text ''--- NOT FOUND ---''
                | Num k \<Rightarrow> if some_unmatched d uc m mc then Float (Nearest k) else Num k
                | _ \<Rightarrow> cell_at m i vc)"
    by (simp add: fillna_cell_def merged_def upcast_def not_found_def split: cell.splits)
  finally show ?thesis
    using convert_no_clash [OF assms(1,2)] output_at [OF assms(1,2,3)] by simp
qed

theorem first_wins_witness:
  "form_request ex_data_upper ''Part'' ex_master ''E'' ''New'' \<and>
   no_label_clash ex_data_upper ''Part'' ex_master ''E'' ''New'' \<and>
   cell_at ex_master 0 ''New'' = Text ''X1'' \<and> cell_at ex_master 1 ''New'' = Text ''X2'' \<and>
   (\<exists>t. convert ex_data_upper ''Part'' ex_master ''E'' ''New'' = Inr t \<and>
        cell_at t 0 new_col_name = Text ''X1'') \<and>
   form_request ex_data_upper ''Part'' ex_master_whole ''E'' ''New'' \<and>
   no_label_clash ex_data_upper ''Part'' ex_master_whole ''E'' ''New'' \<and>
   cell_at ex_master_whole 0 ''New'' = Num 100 \<and> cell_at ex_master_whole 1 ''New'' = Num 200 \<and>
   (\<exists>t. convert ex_data_upper ''Part'' ex_master_whole ''E'' ''New'' = Inr t \<and>
        cell_at t 0 new_col_name = Float (Nearest 100))"
proof -
  have f: "form_request ex_data_upper ''Part'' ex_master ''E'' ''New''" by code_simp
  have c: "no_label_clash ex_data_upper ''Part'' ex_master ''E'' ''New''" by code_simp
  have n: "0 < length (rows ex_data_upper)" by code_simp
  have j: "1 < length (rows ex_master)" by code_simp
  have ki: "master_key ex_master ''E'' (rows ex_master ! 0) =
            data_key ex_data_upper ''Part'' (rows ex_data_upper ! 0)"
    by code_simp
  have kj: "master_key ex_master ''E'' (rows ex_master ! 1) =
            data_key ex_data_upper ''Part'' (rows ex_data_upper ! 0)"
    by code_simp
  have c0: "cell_at ex_master 0 ''New'' = Text ''X1''" by code_simp
  have c1: "cell_at ex_master 1 ''New'' = Text ''X2''" by code_simp
  have f': "form_request ex_data_upper ''Part'' ex_master_whole ''E'' ''New''" by code_simp
  have c': "no_label_clash ex_data_upper ''Part'' ex_master_whole ''E'' ''New''" by code_simp
  have j': "1 < length (rows ex_master_whole)" by code_simp
  have ki': "master_key ex_master_whole ''E'' (rows ex_master_whole ! 0) =
            data_key ex_data_upper ''Part'' (rows ex_data_upper ! 0)"
    by code_simp
  have kj': "master_key ex_master_whole ''E'' (rows ex_master_whole ! 1) =
            data_key ex_data_upper ''Part'' (rows ex_data_upper ! 0)"
    by code_simp
  have c0': "cell_at ex_master_whole 0 ''New'' = Num 100" by code_simp
  have c1': "cell_at ex_master_whole 1 ''New'' = Num 200" by code_simp
  have u: "some_unmatched ex_data_upper ''Part'' ex_master_whole ''E''" by code_simp
  have a: "\<exists>t. convert ex_data_upper ''Part'' ex_master ''E'' ''New'' = Inr t \<and>
        cell_at t 0 new_col_name = Text ''X1''"
    using first_wins [OF f c n _ j ki kj] c0 by simp
  have b: "\<exists>t. convert ex_data_upper ''Part'' ex_master_whole ''E'' ''New'' = Inr t \<and>
        cell_at t 0 new_col_name = Float (Nearest 100)"
    using first_wins [OF f' c' n _ j' ki' kj'] c0' u by simp
  show ?thesis
    using f c c0 c1 a f' c' c0' c1' b by simp
qed







lemma strip_blanks:
  assumes "list_all isspace a" and "list_all isspace b"
  shows "strip (a @ s @ b) = strip s"
proof -
  have a: "dropWhile isspace (a @ s @ b) = dropWhile isspace (s @ b)"
    using assms(1) by (simp add: dropWhile_append list_all_iff)
  have b: "dropWhile isspace (rev b @ xs) = dropWhile isspace xs" for xs
    using assms(2) by (simp add: dropWhile_append list_all_iff)
  show ?thesis
  proof (cases "\<forall>c\<in>set s. isspace c")
    case True
    then have e: "dropWhile isspace (s @ b) = []" "dropWhile isspace s = []"
      using assms(2) by (simp_all add: dropWhile_eq_Nil_conv list_all_iff ball_Un)
    show ?thesis unfolding strip_def a e by simp
  next
    case False
    then obtain x where "x \<in> set s" "\<not> isspace x" by blast
    then have "dropWhile isspace (s @ b) = dropWhile isspace s @ b"
      by (rule dropWhile_append1)
    then show ?thesis by (simp add: strip_def a b)
  qed
qed

lemma strip_no_space: "\<forall>c\<in>set s. \<not> isspace c \<Longrightarrow> strip s = s"
proof (cases "s = []")
  case True
  then show ?thesis by (simp add: strip_def)
next
  case False
  assume a: "\<forall>c\<in>set s. \<not> isspace c"
  have "\<not> isspace (hd s)" "\<not> isspace (hd (rev s))"
    using a False by (simp_all add: hd_rev)
  then have "dropWhile isspace s = s" "dropWhile isspace (rev s) = rev s"
    by (simp_all add: dropWhile_eq_self_iff)
  then show ?thesis by (simp add: strip_def)
qed

lemma digit_nth:
  assumes "k < 10"
  shows "digit_value (''0123456789'' ! k) = k" and "''0123456789'' ! k \<in> set ''0123456789''"
    and "0 < k \<Longrightarrow> ''0123456789'' ! k \<noteq> CHR ''0''"
proof -
  have "k \<in> {0, 1, 2, 3, 4, 5, 6, 7, 8, 9}" using assms by auto
  then show "digit_value (''0123456789'' ! k) = k" and "''0123456789'' ! k \<in> set ''0123456789''"
    and "0 < k \<Longrightarrow> ''0123456789'' ! k \<noteq> CHR ''0''"
    by (auto simp: digit_value_def)
qed

lemma str_nat_value: "digits_value (str_nat n) = n"
proof (induction n rule: str_nat.induct)
  case (1 n)
  show ?case
  proof (cases "n < 10")
    case True
    then show ?thesis
      by (subst str_nat.simps) (simp add: digits_value_def digit_nth(1))
  next
    case False
    have "digits_value (str_nat (n div 10)) = n div 10" using 1 False by simp
    then show ?thesis
      using False by (subst str_nat.simps) (simp add: digits_value_def digit_nth(1))
  qed
qed

lemma str_nat_zero: "str_nat n = ''0'' \<Longrightarrow> n = 0"
proof -
  assume e: "str_nat n = ''0''"
  have "n = digits_value (str_nat n)" by (simp only: str_nat_value)
  also have "\<dots> = digits_value ''0''" by (simp only: e)
  also have "\<dots> = 0" by (simp add: digits_value_def digit_value_def)
  finally show ?thesis .
qed

lemma str_nat_numeral: "numeral_digits (str_nat n)"
proof (induction n rule: str_nat.induct)
  case (1 n)
  show ?case
  proof (cases "n < 10")
    case True
    have "str_nat n = [''0123456789'' ! n]" using True by (subst str_nat.simps) simp
    moreover have "n = 0 \<or> ''0123456789'' ! n \<noteq> CHR ''0''" using digit_nth(3) [OF True] by auto
    ultimately show ?thesis
      using digit_nth(2) [OF True] by (auto simp: numeral_digits_def)
  next
    case False
    let ?p = "str_nat (n div 10)"
    have e: "str_nat n = ?p @ [''0123456789'' ! (n mod 10)]"
      using False by (subst str_nat.simps) simp
    have ih: "numeral_digits ?p" using 1 False by simp
    have "?p \<noteq> ''0''" using str_nat_zero [of "n div 10"] False by auto
    then have "?p \<noteq> []" "hd ?p \<noteq> CHR ''0''" "list_all (\<lambda>c. c \<in> set ''0123456789'') ?p"
      using ih by (auto simp: numeral_digits_def)
    moreover have "''0123456789'' ! (n mod 10) \<in> set ''0123456789''"
      by (rule digit_nth(2)) simp
    ultimately show ?thesis
      unfolding e numeral_digits_def by simp
  qed
qed

lemma digit_not_space: "c \<in> set ''0123456789'' \<Longrightarrow> \<not> isspace c \<and> c \<noteq> CHR ''-''"
  by (auto simp: isspace_def)

lemma str_int_strip: "strip (str_int k) = str_int k"
proof -
  have "\<forall>c\<in>set (str_nat n). \<not> isspace c" for n
    using str_nat_numeral [of n] digit_not_space by (auto simp: numeral_digits_def list_all_iff)
  moreover have "\<not> isspace CHR ''-''" by (simp add: isspace_def)
  ultimately have "\<forall>c\<in>set (str_int k). \<not> isspace c"
    by (simp add: str_int_def)
  then show ?thesis by (rule strip_no_space)
qed

lemma str_int_decimal: "decimal_of (str_int k) = Some k"
proof (cases "k < 0")
  case True
  have "str_nat (nat (- k)) \<noteq> ''0''" using str_nat_zero [of "nat (- k)"] True by auto
  then show ?thesis
    using True str_nat_numeral [of "nat (- k)"]
    by (simp add: str_int_def decimal_of_def str_nat_value)
next
  case False
  obtain c cs where e: "str_nat (nat k) = c # cs"
    using str_nat_numeral [of "nat k"] by (cases "str_nat (nat k)") (auto simp: numeral_digits_def)
  have "c \<in> set ''0123456789''"
    using str_nat_numeral [of "nat k"] unfolding e numeral_digits_def by simp
  then have "c \<noteq> CHR ''-''" using digit_not_space by blast
  moreover have "numeral_digits (c # cs)" "digits_value (c # cs) = nat k"
    using str_nat_numeral [of "nat k"] str_nat_value [of "nat k"] unfolding e by simp_all
  ultimately show ?thesis
    using False by (simp add: str_int_def decimal_of_def e)
qed

text \<open>
  Claim C5, as stated: a number and a text that differ only in their representation, as
  the number 42 and the text \<open>" 42 "\<close>, normalize to the same text and match. In a column
  of numbers with a blank cell the number 42 is the float 42.0; its normalized key is the
  text \<open>42.0\<close>, which is not the normalized key of \<open>" 42 "\<close>, and the row finds no master
  row.
\<close>

theorem key_normalization_as_stated_fails:
  "normalize_key (cell_at ex_floats 0 ''Part'') \<noteq> normalize_key (Text '' 42 '') \<and>
   shown_cell (convert ex_floats ''Part'' ex_master_padded ''E'' ''New'') 0 ''Converted Part Number'' =
     Some (Text ''--- NOT FOUND ---'')"
  by code_simp

text \<open>
  Claim C5, amended: both key columns are normalized by the same function, the text
  \<open>str\<close> gives for the cell with the whitespace at its ends removed. A text and the same
  text with whitespace around it have the same normalized key. The normalized key of a
  whole number of an integer column is its decimal numeral (so 42 and \<open>" 42 "\<close> have the
  same key); the normalized key of a float is the text \<open>str\<close> gives for the float, which
  for 42.0 is \<open>42.0\<close> and not \<open>42\<close>. On every request with no clash of labels (the key and
  the value column of the master table are two columns; the data table has no column
  labelled like the value column and none labelled \<open>Converted Part Number\<close>; a master key
  column labelled otherwise than the data key column is labelled neither like a data
  column nor \<open>Converted Part Number\<close>), a data row whose key cell has the normalized text
  of the key cell of some master row is matched: its key cell in the result is that
  text, and its output cell comes from the first master row with that normalized key
  (the text \<open>--- NOT FOUND ---\<close> for a missing value).
\<close>

theorem key_normalization:
  assumes "form_request d uc m mc vc" and "no_label_clash d uc m mc vc"
    and "n < length (rows d)" and "r \<in> set (rows m)"
    and "strip (astype_str (cell_at d n uc)) = strip (astype_str (r ! index_of (columns m) mc))"
  shows "(list_all isspace a \<and> list_all isspace b \<longrightarrow>
            normalize_key (Text (a @ s @ b)) = normalize_key (Text s)) \<and>
         (\<exists>ds. normalize_key (Num k) = Text ds \<and> decimal_of ds = Some k) \<and>
         normalize_key (Num 42) = normalize_key (Text '' 42 '') \<and>
         normalize_key (Float (Repr False ''42'' 2)) = Text ''42.0'' \<and>
         (\<exists>t r'. convert d uc m mc vc = Inr t \<and>
                 first_match m mc (Text (strip (astype_str (cell_at d n uc)))) = Some r' \<and>
                 strip (astype_str (r' ! index_of (columns m) mc)) =
                   strip (astype_str (cell_at d n uc)) \<and>
                 cell_at t n uc = Text (strip (astype_str (cell_at d n uc))) \<and>
                 cell_at t n new_col_name =
                   fillna_cell not_found (merged d uc m mc (r' ! index_of (columns m) vc)))"
proof -
  let ?k = "Text (strip (astype_str (cell_at d n uc)))"
  have k1: "list_all isspace a \<and> list_all isspace b \<longrightarrow>
            normalize_key (Text (a @ s @ b)) = normalize_key (Text s)"
    by (simp add: normalize_key_def astype_str_def strip_blanks)
  have k2: "\<exists>ds. normalize_key (Num k) = Text ds \<and> decimal_of ds = Some k"
    by (simp add: normalize_key_def astype_str_def str_int_strip str_int_decimal)
  have k3: "normalize_key (Num 42) = normalize_key (Text '' 42 '')" by code_simp
  have k4: "normalize_key (Float (Repr False ''42'' 2)) = Text ''42.0''" by code_simp
  have dk: "data_key d uc (rows d ! n) = ?k"
    by (simp add: data_key_def normalize_key_def cell_at_def)
  have "master_key m mc r = ?k"
    using assms(5) by (simp add: master_key_def normalize_key_def)
  then obtain r' where r': "first_match m mc ?k = Some r'"
    using assms(4) by (cases "first_match m mc ?k") (auto simp: first_match_def find_None_iff)
  then have same: "strip (astype_str (r' ! index_of (columns m) mc)) =
                   strip (astype_str (cell_at d n uc))"
    by (auto simp: first_match_def find_Some_iff master_key_def normalize_key_def)
  have uc: "uc \<in> set (columns d)" using assms(1) by (simp add: form_request_def)
  have out: "output_cell d uc m mc vc (data_key d uc (rows d ! n)) =
        fillna_cell not_found (merged d uc m mc (r' ! index_of (columns m) vc))"
    using r' dk by (simp add: output_cell_def)
  have key: "normalize_key (cell_at d n uc) = ?k"
    by (simp add: normalize_key_def)
  have "\<exists>t r'. convert d uc m mc vc = Inr t \<and>
                 first_match m mc ?k = Some r' \<and>
                 strip (astype_str (r' ! index_of (columns m) mc)) =
                   strip (astype_str (cell_at d n uc)) \<and>
                 cell_at t n uc = ?k \<and>
                 cell_at t n new_col_name =
                   fillna_cell not_found (merged d uc m mc (r' ! index_of (columns m) vc))"
    using r' same out key
      convert_no_clash [OF assms(1,2)] output_at [OF assms(1,2,3)] data_at [OF assms(1,3) uc]
    by simp
  with k1 k2 k3 k4 show ?thesis by blast
qed

theorem key_normalization_witness:
  "form_request ex_numbers ''Part'' ex_master_padded ''E'' ''New'' \<and>
   no_label_clash ex_numbers ''Part'' ex_master_padded ''E'' ''New'' \<and>
   cell_at ex_numbers 0 ''Part'' = Num 42 \<and>
   [Text '' 42 '', Text ''N42''] \<in> set (rows ex_master_padded) \<and>
   (\<exists>t. convert ex_numbers ''Part'' ex_master_padded ''E'' ''New'' = Inr t \<and>
        cell_at t 0 ''Part'' = Text ''42'' \<and> cell_at t 0 new_col_name = Text ''N42'')"
proof -
  have f: "form_request ex_numbers ''Part'' ex_master_padded ''E'' ''New''" by code_simp
  have c: "no_label_clash ex_numbers ''Part'' ex_master_padded ''E'' ''New''" by code_simp
  have n: "0 < length (rows ex_numbers)" by code_simp
  have r: "[Text '' 42 '', Text ''N42''] \<in> set (rows ex_master_padded)" by code_simp
  have k: "strip (astype_str (cell_at ex_numbers 0 ''Part'')) =
           strip (astype_str ([Text '' 42 '', Text ''N42''] ! index_of (columns ex_master_padded) ''E''))"
    by code_simp
  have s: "strip (astype_str (cell_at ex_numbers 0 ''Part'')) = ''42''" by code_simp
  have cc: "cell_at ex_numbers 0 ''Part'' = Num 42" by code_simp
  have fm: "first_match ex_master_padded ''E'' (Text ''42'') = Some [Text '' 42 '', Text ''N42'']"
    by code_simp
  have ix: "index_of (columns ex_master_padded) ''New'' = 1" by code_simp
  have mg: "merged ex_numbers ''Part'' ex_master_padded ''E'' (Text ''N42'') = Text ''N42''"
    by (simp add: merged_def upcast_def)
  obtain t r' where t: "convert ex_numbers ''Part'' ex_master_padded ''E'' ''New'' = Inr t"
    and r': "first_match ex_master_padded ''E'' (Text ''42'') = Some r'"
    and ck: "cell_at t 0 ''Part'' = Text ''42''"
    and co: "cell_at t 0 new_col_name =
       fillna_cell not_found (merged ex_numbers ''Part'' ex_master_padded ''E''
         (r' ! index_of (columns ex_master_padded) ''New''))"
    using key_normalization [OF f c n r k] unfolding s by blast
  have "r' = [Text '' 42 '', Text ''N42'']" using r' fm by simp
  then have "cell_at t 0 new_col_name = Text ''N42''"
    using co ix mg by (simp add: fillna_cell_def)
  then show ?thesis
    using f c cc r t ck by simp
qed




section \<open>The columns of the result\<close>








section \<open>Loading: exceptions become messages\<close>

text \<open>
  For a name some branch takes, the body of the \<open>try\<close> ends as the last parser call made
  ended: with that call's table or with that call's exception.
\<close>

lemma load_body_outcome:
  assumes "supported (name f)"
  shows "\<exists>eng f0 p. name f0 = name f \<and> payload f0 = payload f \<and>
           load_body rd f header_row =
             (map_sum id Some (fst (rd eng f0 (header_row - 1))), f\<lparr>pos := p\<rparr>)"
proof -
  let ?l = "lower (name f)"
  let ?s = "header_row - 1"
  consider (csv) "endswith ?l ''.csv'' \<or> endswith ?l ''.tsv'' \<or> endswith ?l ''.txt''"
    | (xlsb) "\<not> (endswith ?l ''.csv'' \<or> endswith ?l ''.tsv'' \<or> endswith ?l ''.txt'')"
        "endswith ?l ''.xlsb''"
    | (modern) "\<not> (endswith ?l ''.csv'' \<or> endswith ?l ''.tsv'' \<or> endswith ?l ''.txt'')"
        "\<not> endswith ?l ''.xlsb''"
        "endswith ?l ''.xlsx'' \<or> endswith ?l ''.xlsm'' \<or> endswith ?l ''.xls''"
    using assms by (auto simp: supported_def modern_def Let_def)
  then show ?thesis
  proof cases
    case csv
    have "load_body rd f header_row =
        (map_sum id Some (fst (rd PythonCsv f ?s)), f\<lparr>pos := snd (rd PythonCsv f ?s)\<rparr>)"
      using csv by (simp add: load_body_def call_reader_def Let_def split: prod.splits)
    then show ?thesis by blast
  next
    case xlsb
    have "load_body rd f header_row =
        (map_sum id Some (fst (rd Pyxlsb f ?s)), f\<lparr>pos := snd (rd Pyxlsb f ?s)\<rparr>)"
      using xlsb by (simp add: load_body_def call_reader_def Let_def split: prod.splits)
    then show ?thesis by blast
  next
    case modern
    obtain r p where o: "rd Openpyxl f ?s = (r, p)" by force
    show ?thesis
    proof (cases "\<exists>e. r = Inl e \<and> (contains ''zip file'' (lower e) \<or> endswith ?l ''.xls'')")
      case True
      let ?f0 = "f\<lparr>pos := 0\<rparr>"
      have "load_body rd f header_row =
          (map_sum id Some (fst (rd Xlrd ?f0 ?s)), f\<lparr>pos := snd (rd Xlrd ?f0 ?s)\<rparr>)"
        using modern o True
        by (auto simp add: load_body_def read_excel_with_fallback_def call_reader_def Let_def
            split: prod.splits sum.splits)
      moreover have "name ?f0 = name f" "payload ?f0 = payload f" by simp_all
      ultimately show ?thesis by blast
    next
      case False
      have "load_body rd f header_row = (map_sum id Some (fst (rd Openpyxl f ?s)), f\<lparr>pos := p\<rparr>)"
        using modern o False
        by (auto simp add: load_body_def read_excel_with_fallback_def call_reader_def Let_def
            split: prod.splits sum.splits)
      then show ?thesis by blast
    qed
  qed
qed

text \<open>
  Claim C8: \<open>load_data_file\<close> returns for every parser and every file. For a name some
  branch takes there is a parser call on this file whose outcome is the outcome of the
  load: when the call returns a table, the load returns that table and shows nothing;
  when the call raises, the load returns \<open>None\<close>, never a table, and shows the error
  message with the file name and the text of the exception, followed by the hint.
\<close>

theorem load_never_raises:
  assumes "supported (name f)"
  shows "\<exists>eng f0. name f0 = name f \<and> payload f0 = payload f \<and>
           (case fst (rd eng f0 (header_row - 1)) of
              Inr t \<Rightarrow> fst (load_data_file rd f header_row) = Some t \<and>
                       fst (snd (load_data_file rd f header_row)) = []
            | Inl e \<Rightarrow> fst (load_data_file rd f header_row) = None \<and>
                       fst (snd (load_data_file rd f header_row)) = error_messages (name f) e)"
proof -
  obtain eng f0 p where a: "name f0 = name f" "payload f0 = payload f"
      "load_body rd f header_row =
         (map_sum id Some (fst (rd eng f0 (header_row - 1))), f\<lparr>pos := p\<rparr>)"
    using load_body_outcome [OF assms] by blast
  have "case fst (rd eng f0 (header_row - 1)) of
              Inr t \<Rightarrow> fst (load_data_file rd f header_row) = Some t \<and>
                       fst (snd (load_data_file rd f header_row)) = []
            | Inl e \<Rightarrow> fst (load_data_file rd f header_row) = None \<and>
                       fst (snd (load_data_file rd f header_row)) = error_messages (name f) e"
    by (cases "fst (rd eng f0 (header_row - 1))")
      (simp_all add: load_data_file_def a(3) error_messages_def failed_to_read_def)
  with a(1,2) show ?thesis by blast
qed

theorem load_never_raises_witness:
  "supported (name ex_csv) \<and>
   fst (load_data_file ex_broken_reader ex_csv 1) = None \<and>
   fst (snd (load_data_file ex_broken_reader ex_csv 1)) = error_messages ''data.CSV'' ''boom''"
proof -
  have s: "supported (name ex_csv)" by code_simp
  have n: "name ex_csv = ''data.CSV''" by (simp add: ex_csv_def)
  show ?thesis
    using load_never_raises [OF s, of ex_broken_reader 1] s n
    by (auto simp: ex_broken_reader_def)
qed

end
